theory Spec2Isabelle
  imports Complex_Main "HOL-Library.Sublist" "HOL-Library.Multiset"
begin

section \<open>Python strings and builtins used by the job matcher\<close>

text \<open>
  Texts are modelled as lists of 8-bit characters and are meant to be ASCII: \<open>str.lower\<close>
  changes the letters A to Z only, \<open>len\<close> is the list length, and the whitespace and digit
  classes are the ASCII ones of CPython 3. Python floats are modelled as exact reals:
  rounding is not modelled, nor the overflow of a quotient of integers too large for a
  float. Python integers are \<open>int\<close>. Printing is left out.
\<close>

definition is_upper :: "char \<Rightarrow> bool" where
  "is_upper c = (65 \<le> (of_char c :: nat) \<and> (of_char c :: nat) \<le> 90)"

definition lower_char :: "char \<Rightarrow> char" where
  "lower_char c = (if is_upper c then char_of ((of_char c :: nat) + 32) else c)"

text \<open>\<open>s.lower()\<close>\<close>

definition lower :: "string \<Rightarrow> string" where
  "lower s = map lower_char s"

text \<open>\<open>str.isspace\<close> on one ASCII character; the class \<open>\s\<close> of \<open>re\<close> on \<open>str\<close> patterns
  is the same set: tab, LF, VT, FF, CR, the separators 0x1c to 0x1f, and the blank.\<close>

definition is_space :: "char \<Rightarrow> bool" where
  "is_space c = ((of_char c :: nat) \<in> {9, 10, 11, 12, 13, 28, 29, 30, 31, 32})"

text \<open>The class \<open>\d\<close> on ASCII text.\<close>

definition is_digit :: "char \<Rightarrow> bool" where
  "is_digit c = (48 \<le> (of_char c :: nat) \<and> (of_char c :: nat) \<le> 57)"

text \<open>\<open>sub in s\<close> on strings: \<open>sub\<close> occurs in \<open>s\<close> as a contiguous substring.\<close>

fun contains :: "string \<Rightarrow> string \<Rightarrow> bool" where
  "contains [] sub = (sub = [])"
| "contains (c # cs) sub = (prefix sub (c # cs) \<or> contains cs sub)"

text \<open>\<open>s.split()\<close>: the maximal runs of non-whitespace characters, in order.\<close>

fun split_from :: "string \<Rightarrow> string \<Rightarrow> string list" where
  "split_from cur [] = (if cur = [] then [] else [cur])"
| "split_from cur (c # cs) =
     (if is_space c then (if cur = [] then split_from [] cs else cur # split_from [] cs)
      else split_from (cur @ [c]) cs)"

definition split :: "string \<Rightarrow> string list" where
  "split s = split_from [] s"

text \<open>\<open>sep.join(parts)\<close>\<close>

fun join :: "string \<Rightarrow> string list \<Rightarrow> string" where
  "join sep [] = []"
| "join sep [p] = p"
| "join sep (p # q # ps) = p @ sep @ join sep (q # ps)"

text \<open>The value of a run of decimal digits, as \<open>int\<close> reads it.\<close>

definition digit_val :: "char \<Rightarrow> nat" where
  "digit_val c = (of_char c :: nat) - 48"

definition int_of_digits :: "string \<Rightarrow> int" where
  "int_of_digits ds = int (fold (\<lambda>c n. 10 * n + digit_val c) ds 0)"

text \<open>
  \<open>int(s)\<close> on an ASCII string: C whitespace is stripped on both sides, one sign is allowed,
  and the digits may be separated by single underscores. \<open>None\<close> stands for \<open>ValueError\<close>.
  (The interpreter's optional limit on the number of digits is not modelled.)
\<close>

definition is_c_space :: "char \<Rightarrow> bool" where
  "is_c_space c = ((of_char c :: nat) \<in> {9, 10, 11, 12, 13, 32})"

definition strip_c_space :: "string \<Rightarrow> string" where
  "strip_c_space s = rev (dropWhile is_c_space (rev (dropWhile is_c_space s)))"

fun digits_ok :: "string \<Rightarrow> bool" where
  "digits_ok [] = False"
| "digits_ok [c] = is_digit c"
| "digits_ok (c # d # cs) =
     (is_digit c \<and> (if d = CHR ''_'' then digits_ok cs else digits_ok (d # cs)))"

definition unsigned_int :: "string \<Rightarrow> int option" where
  "unsigned_int b =
     (if digits_ok b then Some (int_of_digits (filter (\<lambda>c. c \<noteq> CHR ''_'') b)) else None)"

definition py_int :: "string \<Rightarrow> int option" where
  "py_int s =
     (case strip_c_space s of
        [] \<Rightarrow> None
      | c # cs \<Rightarrow>
          if c = CHR ''-'' then map_option uminus (unsigned_int cs)
          else if c = CHR ''+'' then unsigned_int cs
          else unsigned_int (c # cs))"

text \<open>\<open>str(n)\<close> for an integer.\<close>

fun digits_of_nat :: "nat \<Rightarrow> string" where
  "digits_of_nat n =
     (if n < 10 then [char_of (48 + n)] else digits_of_nat (n div 10) @ [char_of (48 + n mod 10)])"

definition str_of_int :: "int \<Rightarrow> string" where
  "str_of_int i = (if i < 0 then CHR ''-'' # digits_of_nat (nat (- i)) else digits_of_nat (nat i))"

text \<open>\<open>xs[:k]\<close>: a negative \<open>k\<close> counts from the end of the list.\<close>

definition slice_to :: "'a list \<Rightarrow> int \<Rightarrow> 'a list" where
  "slice_to xs k = (if 0 \<le> k then take (nat k) xs else take (nat (int (length xs) + k)) xs)"

text \<open>
  \<open>xs.sort(key=f, reverse=True)\<close>: the list is reversed, sorted by the stable ascending
  sort, and reversed again.
\<close>

definition sort_reverse :: "('a \<Rightarrow> real) \<Rightarrow> 'a list \<Rightarrow> 'a list" where
  "sort_reverse f xs = rev (sort_key f (rev xs))"

subsection \<open>Regular expressions\<close>

text \<open>
  The fragment of \<open>re\<close> the matcher uses: literal text, the greedy repetitions \<open>\d+\<close>,
  \<open>\s*\<close>, the greedy option \<open>r?\<close> and sequences. A pattern has one capturing group,
  around a sub-expression between a prefix and a suffix. Matching is by backtracking:
  \<open>rx_match r s\<close> lists what is left of \<open>s\<close> after each way of matching \<open>r\<close> at its start,
  the way the engine tries first at the head.
\<close>

datatype char_class = Digit | Whitespace

datatype regex =
    Lit string
  | Many1 char_class
  | Many0 char_class
  | Opt regex
  | Cat regex regex

fun in_class :: "char_class \<Rightarrow> char \<Rightarrow> bool" where
  "in_class Digit c = is_digit c"
| "in_class Whitespace c = is_space c"

text \<open>The suffixes left after taking \<open>k\<close> characters, for \<open>k\<close> from \<open>hi\<close> down to \<open>lo\<close>.\<close>

definition drops_down :: "nat \<Rightarrow> nat \<Rightarrow> string \<Rightarrow> string list" where
  "drops_down lo hi s = map (\<lambda>k. drop k s) (rev [lo ..< Suc hi])"

fun rx_match :: "regex \<Rightarrow> string \<Rightarrow> string list" where
  "rx_match (Lit l) s = (if prefix l s then [drop (length l) s] else [])"
| "rx_match (Many1 c) s = drops_down 1 (length (takeWhile (in_class c) s)) s"
| "rx_match (Many0 c) s = drops_down 0 (length (takeWhile (in_class c) s)) s"
| "rx_match (Opt r) s = rx_match r s @ [s]"
| "rx_match (Cat r1 r2) s = concat (map (rx_match r2) (rx_match r1 s))"

record pattern =
  before_group :: regex
  group1 :: regex
  after_group :: regex

text \<open>All matches of a pattern at the start of \<open>s\<close>, each given by the text of group 1,
  the first one being the engine's.\<close>

definition match_here :: "pattern \<Rightarrow> string \<Rightarrow> string list" where
  "match_here p s =
     concat (map (\<lambda>t1.
       concat (map (\<lambda>t2.
         map (\<lambda>t3. take (length t1 - length t2) t1) (rx_match (after_group p) t2))
         (rx_match (group1 p) t1)))
       (rx_match (before_group p) s))"

text \<open>\<open>re.search(p, s)\<close>, reduced to \<open>group(1)\<close> of the match: the first match at the
  leftmost position that has one.\<close>

fun re_search :: "pattern \<Rightarrow> string \<Rightarrow> string option" where
  "re_search p [] = (case match_here p [] of [] \<Rightarrow> None | g # _ \<Rightarrow> Some g)"
| "re_search p (c # cs) =
     (case match_here p (c # cs) of [] \<Rightarrow> re_search p cs | g # _ \<Rightarrow> Some g)"


section \<open>The CV schema\<close>

record PersonalInfo =
  name :: string
  email :: string
  phone :: string
  location :: string
  linkedin :: "string option"
  github :: "string option"

record Skill =
  skill_name :: string
  category :: string
  proficiency :: string
  years_of_experience :: "int option"

record Experience =
  job_title :: string
  company :: string
  start_date :: string
  end_date :: string
  description :: string
  exp_location :: "string option"

record Education =
  degree :: string
  institution :: string
  field_of_study :: string
  graduation_year :: string
  gpa :: "string option"
  honors :: "string option"

record Project =
  title :: string
  project_description :: string
  technologies :: "string list"
  url :: "string option"
  project_start_date :: "string option"
  project_end_date :: "string option"

record Certification =
  cert_name :: string
  issuing_organization :: string
  issue_date :: "string option"
  expiry_date :: "string option"
  credential_id :: "string option"

record CVData =
  filename :: string
  raw_text :: string
  personal_info :: PersonalInfo
  skills :: "Skill list"
  experience :: "Experience list"
  education :: "Education list"
  projects :: "Project list"
  certifications :: "Certification list"
  languages :: "string list"
  parsed_date :: string

record 'd MatchResult =
  cv_filename :: string
  candidate_name :: string
  overall_score :: real
  skill_match_score :: real
  experience_match_score :: real
  education_match_score :: real
  explanation :: string
  matched_skills :: "string list"
  relevant_experience :: "string list"
  cv_data :: 'd

text \<open>
  What the matcher takes from outside the repository: the cosine similarity of the
  sentence embeddings of two texts, the order in which a Python set of strings is
  iterated (given its elements in insertion order), and the calendar year of
  \<open>datetime.now()\<close>.
\<close>

record runtime =
  similarity :: "string \<Rightarrow> string \<Rightarrow> real"
  set_order :: "string list \<Rightarrow> string list"
  now_year :: int

text \<open>The part of a date that \<open>get_duration_years\<close> reads as the year: the text before the
  first slash, when there is a slash.\<close>

definition year_text :: "string \<Rightarrow> string" where
  "year_text d = (if CHR ''/'' \<in> set d then takeWhile (\<lambda>c. c \<noteq> CHR ''/'') d else d)"

text \<open>\<open>Experience.get_duration_years\<close>; any exception gives 0.\<close>

definition get_duration_years :: "runtime \<Rightarrow> Experience \<Rightarrow> int" where
  "get_duration_years rt e =
     (case py_int (year_text (start_date e)) of
        None \<Rightarrow> 0
      | Some start_year \<Rightarrow>
          (if lower (end_date e) \<in> set [''present'', ''current'']
           then max 0 (now_year rt - start_year)
           else (case py_int (year_text (end_date e)) of
                   None \<Rightarrow> 0
                 | Some end_year \<Rightarrow> max 0 (end_year - start_year))))"

text \<open>\<open>CVData.get_total_experience_years\<close>\<close>

definition get_total_experience_years :: "runtime \<Rightarrow> CVData \<Rightarrow> int" where
  "get_total_experience_years rt cv = sum_list (map (get_duration_years rt) (experience cv))"


section \<open>The job matcher\<close>

text \<open>\<open>JobMatcher.skill_categories\<close>: a dictionary, iterated in insertion order.\<close>

definition skill_categories :: "(string \<times> string list) list" where
  "skill_categories =
     [(''programming_languages'',
         [''python'', ''java'', ''javascript'', ''c++'', ''c#'', ''php'', ''ruby'', ''go'']),
      (''frameworks'',
         [''react'', ''angular'', ''vue'', ''django'', ''flask'', ''spring'', ''node.js'']),
      (''databases'', [''mysql'', ''postgresql'', ''mongodb'', ''redis'', ''elasticsearch'']),
      (''cloud_technologies'', [''aws'', ''azure'', ''gcp'', ''docker'', ''kubernetes'']),
      (''data_science'',
         [''machine learning'', ''deep learning'', ''data science'', ''tensorflow'', ''pytorch'']),
      (''tools'', [''git'', ''jenkins'', ''jira'', ''confluence''])]"

text \<open>\<open>JobMatcher.weights\<close>\<close>

definition weights :: "string \<Rightarrow> real option" where
  "weights = map_of [(''skills'', 0.5), (''experience'', 0.3), (''education'', 0.2)]"

record job_requirements =
  required_skills :: "string list"
  required_experience_years :: int
  requires_degree :: bool
  is_senior_role :: bool
  job_description_text :: string

text \<open>A Python set of strings is kept as the list of its elements in insertion order;
  \<open>set.add\<close> leaves a set that has the element as it is.\<close>

definition set_add :: "string \<Rightarrow> string list \<Rightarrow> string list" where
  "set_add x xs = (if x \<in> set xs then xs else xs @ [x])"

text \<open>The three experience patterns
  \<^verbatim>\<open>(\d+)\+?\s*years?\s*(?:of\s*)?experience\<close>,
  \<^verbatim>\<open>(\d+)\+?\s*years?\s*(?:of\s*)?(?:relevant\s*)?experience\<close> and
  \<^verbatim>\<open>minimum\s*(\d+)\s*years?\<close>.\<close>

definition spaces :: regex where
  "spaces = Many0 Whitespace"

definition experience_patterns :: "pattern list" where
  "experience_patterns =
     [\<lparr>before_group = Lit [], group1 = Many1 Digit,
        after_group =
          Cat (Opt (Lit ''+'')) (Cat spaces (Cat (Lit ''year'') (Cat (Opt (Lit ''s''))
            (Cat spaces (Cat (Opt (Cat (Lit ''of'') spaces)) (Lit ''experience''))))))\<rparr>,
      \<lparr>before_group = Lit [], group1 = Many1 Digit,
        after_group =
          Cat (Opt (Lit ''+'')) (Cat spaces (Cat (Lit ''year'') (Cat (Opt (Lit ''s''))
            (Cat spaces (Cat (Opt (Cat (Lit ''of'') spaces))
              (Cat (Opt (Cat (Lit ''relevant'') spaces)) (Lit ''experience'')))))))\<rparr>,
      \<lparr>before_group = Cat (Lit ''minimum'') spaces, group1 = Many1 Digit,
        after_group = Cat spaces (Cat (Lit ''year'') (Opt (Lit ''s'')))\<rparr>]"

definition education_keywords :: "string list" where
  "education_keywords = [''bachelor'', ''master'', ''phd'', ''degree'', ''university'', ''college'']"

definition senior_keywords :: "string list" where
  "senior_keywords = [''senior'', ''lead'', ''principal'', ''architect'', ''manager'']"

text \<open>The loop over the vocabulary that collects the skills named in the lower-cased
  job description.\<close>

definition detect_skills :: "string \<Rightarrow> string list" where
  "detect_skills job_desc_lower =
     fold (\<lambda>(category, skills) required.
             fold (\<lambda>skill required. if contains job_desc_lower skill then set_add skill required
                                      else required) skills required)
          skill_categories []"

text \<open>The loop over the experience patterns.\<close>

definition detect_years :: "string \<Rightarrow> int" where
  "detect_years job_desc_lower =
     fold (\<lambda>p years. case re_search p job_desc_lower of
                         None \<Rightarrow> years
                       | Some g \<Rightarrow> max years (int_of_digits g))
          experience_patterns 0"

text \<open>\<open>JobMatcher._extract_job_requirements\<close>\<close>

definition extract_job_requirements :: "runtime \<Rightarrow> string \<Rightarrow> job_requirements" where
  "extract_job_requirements rt job_description =
     (let job_desc_lower = lower job_description in
      \<lparr>required_skills = set_order rt (detect_skills job_desc_lower),
       required_experience_years = detect_years job_desc_lower,
       requires_degree = list_ex (contains job_desc_lower) education_keywords,
       is_senior_role = list_ex (contains job_desc_lower) senior_keywords,
       job_description_text = job_description\<rparr>)"

text \<open>The inner loop of the semantic pass: the first candidate skill that is not yet
  matched and is similar enough to the required skill.\<close>

fun first_similar :: "runtime \<Rightarrow> string \<Rightarrow> string list \<Rightarrow> string list \<Rightarrow> string option" where
  "first_similar rt req_skill matched [] = None"
| "first_similar rt req_skill matched (candidate_skill # rest) =
     (if candidate_skill \<notin> set matched \<and> similarity rt req_skill candidate_skill > 0.7
      then Some candidate_skill
      else first_similar rt req_skill matched rest)"

definition direct_matches :: "string list \<Rightarrow> string list \<Rightarrow> string list" where
  "direct_matches required candidate =
     fold (\<lambda>req_skill matched. if req_skill \<in> set candidate then matched @ [req_skill]
                                else matched) required []"

definition semantic_step :: "runtime \<Rightarrow> string list \<Rightarrow> string \<Rightarrow> string list \<Rightarrow> string list" where
  "semantic_step rt candidate req_skill matched =
     (if req_skill \<notin> set matched
      then (case first_similar rt req_skill matched candidate of
              None \<Rightarrow> matched
            | Some candidate_skill \<Rightarrow> matched @ [candidate_skill])
      else matched)"

text \<open>\<open>JobMatcher._calculate_skill_match\<close>\<close>

definition calculate_skill_match ::
  "runtime \<Rightarrow> CVData \<Rightarrow> job_requirements \<Rightarrow> real \<times> string list" where
  "calculate_skill_match rt cv req =
     (let required = required_skills req;
          candidate_skills = map (\<lambda>skill. lower (skill_name skill)) (skills cv)
      in if required = [] then (0.5, [])
         else
           let direct = direct_matches required candidate_skills;
               matched = (if length direct < length required
                          then fold (semantic_step rt candidate_skills) required direct
                          else direct);
               skill_score =
                 (if required = [] then 0.5
                  else let base = real (length matched) / real (length required)
                       in if length candidate_skills > length required
                          then min 1.0 (base * 1.1) else base)
           in (skill_score, matched))"

text \<open>The relevance count of one experience entry: the words of the lower-cased job
  description that are longer than 3 and occur in the entry's text.\<close>

definition relevance_score :: "string \<Rightarrow> Experience \<Rightarrow> nat" where
  "relevance_score job_desc_lower entry =
     (let exp_text = lower (job_title entry @ '' '' @ description entry)
      in fold (\<lambda>word n. if length word > 3 \<and> contains exp_text word then n + 1 else n)
              (split job_desc_lower) 0)"

definition find_relevant_experience :: "string \<Rightarrow> Experience list \<Rightarrow> string list" where
  "find_relevant_experience job_description exps =
     (let job_desc_lower = lower job_description
      in fold (\<lambda>entry relevant.
                 if relevance_score job_desc_lower entry > 0
                 then relevant @ [job_title entry @ '' at '' @ company entry]
                 else relevant) exps [])"

text \<open>\<open>JobMatcher._calculate_experience_match\<close>\<close>

definition calculate_experience_match ::
  "runtime \<Rightarrow> CVData \<Rightarrow> job_requirements \<Rightarrow> string \<Rightarrow> real \<times> string list" where
  "calculate_experience_match rt cv req job_description =
     (let required_years = required_experience_years req;
          candidate_years = get_total_experience_years rt cv;
          relevant = find_relevant_experience job_description (experience cv);
          experience_score =
            (if required_years = 0 then (if candidate_years > 0 then 0.7 else 0.3)
             else if candidate_years \<ge> required_years
                  then min 1.0 (real_of_int candidate_years / real_of_int required_years)
                  else real_of_int candidate_years / real_of_int required_years);
          adjusted = (if is_senior_role req \<and> candidate_years < 3
                      then experience_score * 0.7 else experience_score)
      in (adjusted, relevant))"

text \<open>The rank of one degree text.\<close>

definition degree_level :: "Education \<Rightarrow> int" where
  "degree_level edu =
     (let degree_lower = lower (degree edu)
      in if contains degree_lower ''phd'' \<or> contains degree_lower ''doctorate'' then 4
         else if contains degree_lower ''master'' then 3
         else if contains degree_lower ''bachelor'' then 2
         else 1)"

text \<open>\<open>max(xs) if xs else d\<close>\<close>

fun max_or :: "int \<Rightarrow> int list \<Rightarrow> int" where
  "max_or d [] = d"
| "max_or d (x # xs) = fold max xs x"

text \<open>\<open>JobMatcher._calculate_education_match\<close>\<close>

definition calculate_education_match :: "CVData \<Rightarrow> job_requirements \<Rightarrow> real" where
  "calculate_education_match cv req =
     (let has_degree = length (education cv) > 0
      in if \<not> requires_degree req then 0.7
         else if has_degree
              then let max_degree_level = max_or 1 (map degree_level (education cv))
                   in min 1.0 (real_of_int max_degree_level / 2)
              else 0.3)"

record scores =
  overall :: real
  skills_score :: real
  experience_score :: real
  education_score :: real
  scores_matched_skills :: "string list"
  scores_relevant_experience :: "string list"

text \<open>\<open>self.weights[k]\<close>\<close>

definition weight :: "string \<Rightarrow> real" where
  "weight k = the (weights k)"

text \<open>\<open>JobMatcher._calculate_matching_scores\<close>\<close>

definition calculate_matching_scores ::
  "runtime \<Rightarrow> CVData \<Rightarrow> job_requirements \<Rightarrow> string \<Rightarrow> scores" where
  "calculate_matching_scores rt cv req job_description =
     (let (skill_score, matched) = calculate_skill_match rt cv req;
          (exp_score, relevant) = calculate_experience_match rt cv req job_description;
          edu_score = calculate_education_match cv req;
          overall_score = skill_score * weight ''skills'' + exp_score * weight ''experience''
                          + edu_score * weight ''education''
      in \<lparr>overall = overall_score, skills_score = skill_score, experience_score = exp_score,
          education_score = edu_score, scores_matched_skills = matched,
          scores_relevant_experience = relevant\<rparr>)"


subsection \<open>Explanations\<close>

text \<open>The pictograms in front of the explanation lines, as the bytes of the source file.\<close>

definition mark_excellent :: string where
  "mark_excellent = map char_of [195, 176, 197, 184, 197, 184, 194, 162 :: nat]"

definition mark_good :: string where
  "mark_good = map char_of [195, 176, 197, 184, 197, 184, 194, 161 :: nat]"

definition mark_limited :: string where
  "mark_limited = map char_of [195, 176, 197, 184, 226, 128, 157, 194, 180 :: nat]"

definition mark_check :: string where
  "mark_check = map char_of [195, 162, 197, 147, 226, 128, 166 :: nat]"

definition mark_cross :: string where
  "mark_cross = map char_of [195, 162, 197, 146 :: nat]"

definition mark_warning :: string where
  "mark_warning = map char_of [195, 162, 197, 161, 194, 160, 195, 175, 194, 184 :: nat]"

definition mark_target :: string where
  "mark_target = map char_of [195, 176, 197, 184, 197, 189, 194, 175 :: nat]"

definition mark_education :: string where
  "mark_education = map char_of [195, 176, 197, 184, 197, 189, 226, 128, 156 :: nat]"

text \<open>\<open>f"{n:.1f}"\<close> for an integer \<open>n\<close> (one that a float holds exactly).\<close>

definition format_1f :: "int \<Rightarrow> string" where
  "format_1f n = str_of_int n @ ''.0''"

text \<open>\<open>JobMatcher._generate_explanation\<close>; the list of parts is built up part by part.\<close>

definition tier_part :: "real \<Rightarrow> string" where
  "tier_part score =
     (if score \<ge> 0.8 then mark_excellent @ '' Excellent match for this position.''
      else if score \<ge> 0.6
           then mark_good @ '' Good match with some areas for consideration.''
           else mark_limited @ '' Limited match for this position.'')"

definition skill_parts :: "string list \<Rightarrow> string list \<Rightarrow> string list" where
  "skill_parts matched required =
     (if matched \<noteq> [] then [mark_check @ '' Matching skills: '' @ join '', '' matched] else [])
     @ (if length matched < length required
        then [mark_cross @ '' Missing skills: ''
              @ join '', '' (filter (\<lambda>skill. skill \<notin> set matched) required)]
        else [])"

definition experience_parts :: "int \<Rightarrow> int \<Rightarrow> string list" where
  "experience_parts candidate_years required_years =
     (if required_years > 0
      then [(if candidate_years \<ge> required_years then mark_check else mark_warning)
            @ '' Has '' @ format_1f candidate_years
            @ '' years of experience (required: '' @ str_of_int required_years @ '')'']
      else [])"

definition relevant_parts :: "string list \<Rightarrow> string list" where
  "relevant_parts relevant_exp =
     (if relevant_exp \<noteq> []
      then [mark_target @ '' Relevant experience: '' @ join '', '' (slice_to relevant_exp 2)]
      else [])"

definition education_parts :: "CVData \<Rightarrow> job_requirements \<Rightarrow> string list" where
  "education_parts cv req =
     (if requires_degree req
      then (if education cv \<noteq> []
            then [mark_education @ '' Education: '' @ join '', '' (map degree (education cv))]
            else [mark_warning @ '' No formal education information found''])
      else [])"

definition generate_explanation :: "runtime \<Rightarrow> CVData \<Rightarrow> job_requirements \<Rightarrow> scores \<Rightarrow> string" where
  "generate_explanation rt cv req sc =
     join '' | ''
       ([tier_part (overall sc)]
        @ skill_parts (scores_matched_skills sc) (required_skills req)
        @ experience_parts (get_total_experience_years rt cv) (required_experience_years req)
        @ relevant_parts (scores_relevant_experience sc)
        @ education_parts cv req)"

subsection \<open>Ranking\<close>

text \<open>
  One pass of the loop body of \<open>find_matches\<close>. The candidate arrives as a dictionary of
  some type \<open>'d\<close>; \<open>parse_cv\<close> stands for the schema's constructor \<open>CVData(**d)\<close>, with
  \<open>None\<close> for a validation error, which skips the candidate.
\<close>

definition match_one ::
  "runtime \<Rightarrow> ('d \<Rightarrow> CVData option) \<Rightarrow> job_requirements \<Rightarrow> string \<Rightarrow> bool \<Rightarrow> 'd
     \<Rightarrow> 'd MatchResult option" where
  "match_one rt parse_cv req job_description include_explanations cv_data_dict =
     (case parse_cv cv_data_dict of
        None \<Rightarrow> None
      | Some cv \<Rightarrow>
          let sc = calculate_matching_scores rt cv req job_description
          in Some \<lparr>cv_filename = filename cv,
                   candidate_name = (if name (personal_info cv) \<noteq> [] then name (personal_info cv)
                                     else ''Unknown''),
                   overall_score = overall sc,
                   skill_match_score = skills_score sc,
                   experience_match_score = experience_score sc,
                   education_match_score = education_score sc,
                   explanation = (if include_explanations
                                  then generate_explanation rt cv req sc else []),
                   matched_skills = scores_matched_skills sc,
                   relevant_experience = scores_relevant_experience sc,
                   cv_data = cv_data_dict\<rparr>)"

text \<open>The loop of \<open>find_matches\<close> over the candidates.\<close>

definition match_all ::
  "runtime \<Rightarrow> ('d \<Rightarrow> CVData option) \<Rightarrow> job_requirements \<Rightarrow> string \<Rightarrow> bool \<Rightarrow> 'd list
     \<Rightarrow> 'd MatchResult list" where
  "match_all rt parse_cv req job_description include_explanations cv_data_list =
     fold (\<lambda>cv_data_dict match_results.
             case match_one rt parse_cv req job_description include_explanations cv_data_dict of
               None \<Rightarrow> match_results
             | Some match_result \<Rightarrow> match_results @ [match_result])
          cv_data_list []"

text \<open>\<open>JobMatcher.find_matches\<close>\<close>

definition find_matches ::
  "runtime \<Rightarrow> ('d \<Rightarrow> CVData option) \<Rightarrow> string \<Rightarrow> 'd list \<Rightarrow> int \<Rightarrow> bool
     \<Rightarrow> 'd MatchResult list" where
  "find_matches rt parse_cv job_description cv_data_list top_k include_explanations =
     (if cv_data_list = [] then []
      else
        let job_reqs = extract_job_requirements rt job_description;
            match_results = match_all rt parse_cv job_reqs job_description
                              include_explanations cv_data_list
        in slice_to (sort_reverse overall_score match_results) top_k)"

subsection \<open>Names for the intermediate lists of \<open>find_matches\<close>\<close>

text \<open>The list \<open>match_results\<close> of \<open>find_matches\<close> after the loop, and after the sort.\<close>

definition candidate_results ::
  "runtime \<Rightarrow> ('d \<Rightarrow> CVData option) \<Rightarrow> string \<Rightarrow> 'd list \<Rightarrow> bool \<Rightarrow> 'd MatchResult list" where
  "candidate_results rt parse_cv job_description cv_data_list include_explanations =
     match_all rt parse_cv (extract_job_requirements rt job_description) job_description
       include_explanations cv_data_list"

definition ranked_results ::
  "runtime \<Rightarrow> ('d \<Rightarrow> CVData option) \<Rightarrow> string \<Rightarrow> 'd list \<Rightarrow> bool \<Rightarrow> 'd MatchResult list" where
  "ranked_results rt parse_cv job_description cv_data_list include_explanations =
     sort_reverse overall_score
       (candidate_results rt parse_cv job_description cv_data_list include_explanations)"

subsection \<open>Relevance of an experience entry\<close>

text \<open>The text of an entry that the relevance check reads.\<close>

definition entry_text :: "Experience \<Rightarrow> string" where
  "entry_text entry = lower (job_title entry @ '' '' @ description entry)"

text \<open>
  The relevance test as the specification words it: the whitespace tokens of the entry's
  text and of the job description, both lower-cased, share a token longer than 3.
\<close>

definition shares_token :: "string \<Rightarrow> Experience \<Rightarrow> bool" where
  "shares_token job_description entry =
     list_ex (\<lambda>w. length w > 3 \<and> w \<in> set (split (entry_text entry)))
       (split (lower job_description))"

text \<open>
  The relevance test as \<open>_calculate_experience_match\<close> has it: a whitespace token of the
  lower-cased job description that is longer than 3 occurs somewhere in the entry's text
  (\<open>word in exp_text\<close> on strings).
\<close>

definition has_keyword :: "string \<Rightarrow> Experience \<Rightarrow> bool" where
  "has_keyword job_description entry =
     list_ex (\<lambda>w. length w > 3 \<and> contains (entry_text entry) w) (split (lower job_description))"

subsection \<open>The skill vocabulary and its order\<close>

text \<open>The skills of \<open>skill_categories\<close> in the order in which the extractor visits them.\<close>

definition vocabulary :: "string list" where
  "vocabulary = concat (map snd skill_categories)"



subsection \<open>Occurrences of the experience patterns\<close>

text \<open>
  The occurrences of a pattern in a text: group 1 of the match at every position at which
  the pattern matches, from left to right.
\<close>

fun occurrences :: "pattern \<Rightarrow> string \<Rightarrow> string list" where
  "occurrences p [] = (case match_here p [] of [] \<Rightarrow> [] | g # _ \<Rightarrow> [g])"
| "occurrences p (c # cs) =
     (case match_here p (c # cs) of [] \<Rightarrow> occurrences p cs | g # _ \<Rightarrow> g # occurrences p cs)"

text \<open>The first occurrence only, as a list of at most one element.\<close>

definition first_occurrence :: "pattern \<Rightarrow> string \<Rightarrow> string list" where
  "first_occurrence p s = take 1 (occurrences p s)"

text \<open>
  The largest number among the given matches of the three experience patterns, and 0 when
  there is none. With \<open>occurrences\<close> this is the required number of years as the
  specification words it, the maximum over all occurrences.
\<close>

definition max_over_matches :: "(pattern \<Rightarrow> string \<Rightarrow> string list) \<Rightarrow> string \<Rightarrow> int" where
  "max_over_matches which s =
     fold max (concat (map (\<lambda>p. map int_of_digits (which p s)) experience_patterns)) 0"

section \<open>Example data\<close>

text \<open>A runtime without semantic matches and with insertion-ordered sets, and some
  candidates and requirement sets, for evaluating the definitions.\<close>

definition example_runtime :: runtime where
  "example_runtime = \<lparr>similarity = (\<lambda>a b. 0), set_order = (\<lambda>xs. xs), now_year = 2025\<rparr>"

definition make_skill :: "string \<Rightarrow> Skill" where
  "make_skill n = \<lparr>skill_name = n, category = ''Programming Language'',
                   proficiency = ''Intermediate'', years_of_experience = None\<rparr>"

definition make_experience :: "string \<Rightarrow> string \<Rightarrow> string \<Rightarrow> string \<Rightarrow> string \<Rightarrow> Experience" where
  "make_experience t c s e d = \<lparr>job_title = t, company = c, start_date = s, end_date = e,
                                description = d, exp_location = None\<rparr>"

definition make_education :: "string \<Rightarrow> Education" where
  "make_education d = \<lparr>degree = d, institution = ''State University'', field_of_study = [],
                       graduation_year = ''2015'', gpa = None, honors = None\<rparr>"

definition make_cv :: "string \<Rightarrow> Skill list \<Rightarrow> Experience list \<Rightarrow> Education list \<Rightarrow> CVData" where
  "make_cv n sk ex ed =
     \<lparr>filename = n @ ''.pdf'', raw_text = [],
      personal_info = \<lparr>name = n, email = [], phone = [], location = [],
                       linkedin = None, github = None\<rparr>,
      skills = sk, experience = ex, education = ed, projects = [], certifications = [],
      languages = [], parsed_date = ''2025-01-01''\<rparr>"

definition cv_ann :: CVData where
  "cv_ann = make_cv ''ann''
     (map make_skill [''Python'', ''Java'', ''React'', ''Flask''])
     [make_experience ''Engineer'' ''Acme'' ''2019'' ''2022'' ''Built services'']
     [make_education ''Bachelor of Science'']"

definition cv_bob :: CVData where
  "cv_bob = make_cv ''bob'' [] [] []"

definition req_five_skills :: job_requirements where
  "req_five_skills = \<lparr>required_skills = [''python'', ''java'', ''react'', ''flask'', ''mysql''],
      required_experience_years = 5, requires_degree = True, is_senior_role = False,
      job_description_text = []\<rparr>"

definition req_senior_open :: job_requirements where
  "req_senior_open = \<lparr>required_skills = [], required_experience_years = 0,
      requires_degree = False, is_senior_role = True, job_description_text = ''senior''\<rparr>"

definition req_open :: job_requirements where
  "req_open = \<lparr>required_skills = [], required_experience_years = 0,
      requires_degree = False, is_senior_role = False, job_description_text = []\<rparr>"

definition cv_cat :: CVData where
  "cv_cat = make_cv ''cat'' [] [] []"

definition cv_dev :: CVData where
  "cv_dev = make_cv ''dev'' []
     [make_experience ''JavaScript Developer'' ''Acme'' ''2019'' ''2022'' [],
      make_experience ''Cook'' ''Diner'' ''2015'' ''2019'' ''Prepared meals'',
      make_experience ''Java Engineer'' ''Initech'' ''2012'' ''2015'' ''Backend'']
     []"



text \<open>A candidate whose only entry starts and ends in the same year, and one with two
  years of experience.\<close>

definition cv_eve :: CVData where
  "cv_eve = make_cv ''eve'' [] [make_experience ''Intern'' ''Acme'' ''2022'' ''2022'' []] []"

definition cv_joe :: CVData where
  "cv_joe = make_cv ''joe'' [] [make_experience ''Analyst'' ''Initech'' ''2020'' ''2022'' []] []"

section \<open>Properties of the scorers\<close>

lemma fold_append_if:
  "fold (\<lambda>x acc. if P x then acc @ [g x] else acc) xs acc = acc @ map g (filter P xs)"
  by (induction xs arbitrary: acc) auto

lemma direct_matches_filter:
  "direct_matches required candidate = filter (\<lambda>r. r \<in> set candidate) required"
  unfolding direct_matches_def using fold_append_if [of "\<lambda>r. r \<in> set candidate" "\<lambda>r. r" required "[]"]
  by simp

lemma first_similar_Some:
  "first_similar rt r m cs = Some c \<Longrightarrow> c \<in> set cs \<and> c \<notin> set m \<and> similarity rt r c > 0.7"
  by (induction cs) (auto split: if_splits)

lemma semantic_step_cases:
  "semantic_step rt cand r m = m \<or>
   (\<exists>c. semantic_step rt cand r m = m @ [c] \<and> r \<notin> set m \<and> c \<in> set cand \<and> c \<notin> set m)"
  unfolding semantic_step_def
  by (auto split: option.splits dest: first_similar_Some)

lemma semantic_fold_length:
  "length (fold (semantic_step rt cand) rs m) \<le> length m + length (filter (\<lambda>r. r \<notin> set m) rs)"
proof (induction rs arbitrary: m)
  case Nil
  then show ?case by simp
next
  case (Cons r rs)
  consider (same) "semantic_step rt cand r m = m"
    | (add) c where "semantic_step rt cand r m = m @ [c]" "r \<notin> set m"
    using semantic_step_cases [of rt cand r m] by blast
  then show ?case
  proof cases
    case same
    have "length (fold (semantic_step rt cand) rs m) \<le> length m + length (filter (\<lambda>r. r \<notin> set m) rs)"
      by (rule Cons.IH)
    with same show ?thesis by simp
  next
    case add
    have "length (filter (\<lambda>r. r \<notin> set (m @ [c])) rs) \<le> length (filter (\<lambda>r. r \<notin> set m) rs)"
      by (induction rs) auto
    moreover have "length (fold (semantic_step rt cand) rs (m @ [c]))
        \<le> length (m @ [c]) + length (filter (\<lambda>r. r \<notin> set (m @ [c])) rs)"
      by (rule Cons.IH)
    ultimately show ?thesis using add by simp
  qed
qed

lemma semantic_fold_extends:
  "\<exists>sem. fold (semantic_step rt cand) rs m = m @ sem \<and> set sem \<subseteq> set cand - set m
         \<and> (distinct m \<longrightarrow> distinct (m @ sem))"
proof (induction rs arbitrary: m)
  case Nil
  then show ?case by simp
next
  case (Cons r rs)
  consider (same) "semantic_step rt cand r m = m"
    | (add) c where "semantic_step rt cand r m = m @ [c]" "c \<in> set cand" "c \<notin> set m"
    using semantic_step_cases [of rt cand r m] by blast
  then show ?case
  proof cases
    case same
    then show ?thesis using Cons.IH [of m] by simp
  next
    case add
    obtain sem where s: "fold (semantic_step rt cand) rs (m @ [c]) = (m @ [c]) @ sem"
      "set sem \<subseteq> set cand - set (m @ [c])" "distinct (m @ [c]) \<longrightarrow> distinct ((m @ [c]) @ sem)"
      using Cons.IH [of "m @ [c]"] by blast
    have "fold (semantic_step rt cand) (r # rs) m = m @ (c # sem)"
      using add s(1) by simp
    moreover have "set (c # sem) \<subseteq> set cand - set m"
      using add s(2) by auto
    moreover have "distinct m \<longrightarrow> distinct (m @ (c # sem))"
      using add s(3) by auto
    ultimately show ?thesis by blast
  qed
qed

lemma filter_split_length:
  "length (filter P xs) + length (filter (\<lambda>x. \<not> P x) xs) = length xs"
  by (induction xs) auto

lemma matched_length_le:
  "length (snd (calculate_skill_match rt cv req)) \<le> length (required_skills req)"
proof -
  let ?req = "required_skills req"
  let ?cand = "map (\<lambda>skill. lower (skill_name skill)) (skills cv)"
  let ?d = "direct_matches ?req ?cand"
  have d: "?d = filter (\<lambda>r. r \<in> set ?cand) ?req" by (rule direct_matches_filter)
  have dl: "length ?d \<le> length ?req" unfolding d by simp
  have "filter (\<lambda>r. r \<notin> set ?d) ?req = filter (\<lambda>r. r \<notin> set ?cand) ?req"
    unfolding d by (rule filter_cong) auto
  then have "length ?d + length (filter (\<lambda>r. r \<notin> set ?d) ?req) = length ?req"
    unfolding d using filter_split_length [of "\<lambda>r. r \<in> set ?cand" ?req] by simp
  then have "length (fold (semantic_step rt ?cand) ?req ?d) \<le> length ?req"
    using semantic_fold_length [of rt ?cand ?req ?d] by simp
  with dl show ?thesis
    unfolding calculate_skill_match_def by (simp add: Let_def)
qed

lemma skill_score_eq:
  "fst (calculate_skill_match rt cv req) =
     (if required_skills req = [] then 0.5
      else let base = real (length (snd (calculate_skill_match rt cv req)))
                        / real (length (required_skills req))
           in if length (skills cv) > length (required_skills req)
              then min 1 (base * 1.1) else base)"
  unfolding calculate_skill_match_def by (simp add: Let_def)

lemma skill_score_bounds:
  "0 \<le> fst (calculate_skill_match rt cv req) \<and> fst (calculate_skill_match rt cv req) \<le> 1"
proof (cases "required_skills req = []")
  case True
  then show ?thesis by (simp add: skill_score_eq)
next
  case False
  let ?n = "real (length (snd (calculate_skill_match rt cv req)))"
  let ?d = "real (length (required_skills req))"
  have dpos: "0 < ?d" using False by simp
  have "?n \<le> ?d" using matched_length_le [of rt cv req] by simp
  then have b1: "?n / ?d \<le> 1" using dpos by simp
  have b0: "0 \<le> ?n / ?d" by simp
  have b2: "0 \<le> ?n / ?d * 1.1" using b0 by simp
  show ?thesis
    using False b0 b1 b2 by (simp add: skill_score_eq Let_def min_def)
qed

lemma duration_nonneg: "0 \<le> get_duration_years rt e"
  unfolding get_duration_years_def by (simp split: option.splits)

lemma total_years_nonneg: "0 \<le> get_total_experience_years rt cv"
  unfolding get_total_experience_years_def
  by (rule sum_list_nonneg) (auto simp: duration_nonneg)

lemma experience_base_bounds:
  fixes c r :: int
  assumes "0 \<le> c" "0 \<le> r"
  defines "b \<equiv> (if r = 0 then (if c > 0 then 0.7 else 0.3)
             else if c \<ge> r then min 1.0 (real_of_int c / real_of_int r)
                  else real_of_int c / real_of_int r) :: real"
  shows "0 \<le> b \<and> b \<le> 1"
proof (cases "r = 0")
  case True
  then show ?thesis unfolding b_def by simp
next
  case False
  have q0: "0 \<le> real_of_int c / real_of_int r" using assms(1,2) by simp
  show ?thesis
  proof (cases "c \<ge> r")
    case True
    with False q0 show ?thesis unfolding b_def by (simp add: min_def)
  next
    case lt: False
    then have "real_of_int c / real_of_int r \<le> 1" using assms(1,2) False by simp
    with False lt q0 show ?thesis unfolding b_def by simp
  qed
qed

lemma experience_score_eq:
  "fst (calculate_experience_match rt cv req jd) =
     (let c = get_total_experience_years rt cv; r = required_experience_years req;
          b = (if r = 0 then (if c > 0 then 0.7 else 0.3)
               else if c \<ge> r then min 1.0 (real_of_int c / real_of_int r)
                  else real_of_int c / real_of_int r)
      in if is_senior_role req \<and> c < 3 then b * 0.7 else b)"
  unfolding calculate_experience_match_def by (simp add: Let_def)

lemma experience_score_bounds:
  assumes "0 \<le> required_experience_years req"
  shows "0 \<le> fst (calculate_experience_match rt cv req jd) \<and> fst (calculate_experience_match rt cv req jd) \<le> 1"
proof -
  define c where "c = get_total_experience_years rt cv"
  define r where "r = required_experience_years req"
  define b :: real where "b = (if r = 0 then (if c > 0 then 0.7 else 0.3)
               else if c \<ge> r then min 1.0 (real_of_int c / real_of_int r)
                  else real_of_int c / real_of_int r)"
  have c0: "0 \<le> c" unfolding c_def by (rule total_years_nonneg)
  have r0: "0 \<le> r" unfolding r_def by (rule assms)
  have base: "0 \<le> b \<and> b \<le> 1"
    unfolding b_def by (rule experience_base_bounds [OF c0 r0])
  have adj: "0 \<le> b * 0.7 \<and> b * 0.7 \<le> 1" using base by simp
  have "fst (calculate_experience_match rt cv req jd) =
          (if is_senior_role req \<and> c < 3 then b * 0.7 else b)"
    unfolding experience_score_eq c_def r_def b_def Let_def ..
  with base adj show ?thesis by simp
qed

lemma fold_max_ge: "(x::int) \<le> fold max xs x"
  by (induction xs arbitrary: x) (auto intro: order_trans [OF max.cobounded2])

lemma fold_max_lower: "(\<forall>y \<in> set xs. (l::int) \<le> y) \<Longrightarrow> l \<le> x \<Longrightarrow> l \<le> fold max xs x"
  by (induction xs arbitrary: x) auto

lemma degree_level_pos: "1 \<le> degree_level edu"
  unfolding degree_level_def by (simp add: Let_def)

lemma education_score_bounds:
  "0 \<le> calculate_education_match cv req \<and> calculate_education_match cv req \<le> 1"
proof -
  have "1 \<le> max_or 1 (map degree_level (education cv))"
    by (cases "education cv") (auto intro!: fold_max_lower simp: degree_level_pos)
  then have "0 \<le> real_of_int (max_or 1 (map degree_level (education cv))) / 2" by simp
  then show ?thesis
    unfolding calculate_education_match_def by (simp add: Let_def min_def)
qed

lemma weight_values:
  "weight ''skills'' = 0.5" "weight ''experience'' = 0.3" "weight ''education'' = 0.2"
  by (simp_all add: weight_def weights_def)

lemma scores_fields:
  "skills_score (calculate_matching_scores rt cv req jd) = fst (calculate_skill_match rt cv req)"
  "experience_score (calculate_matching_scores rt cv req jd) = fst (calculate_experience_match rt cv req jd)"
  "education_score (calculate_matching_scores rt cv req jd) = calculate_education_match cv req"
  "scores_matched_skills (calculate_matching_scores rt cv req jd) = snd (calculate_skill_match rt cv req)"
  "scores_relevant_experience (calculate_matching_scores rt cv req jd) = snd (calculate_experience_match rt cv req jd)"
  "overall (calculate_matching_scores rt cv req jd) =
     fst (calculate_skill_match rt cv req) * weight ''skills''
     + fst (calculate_experience_match rt cv req jd) * weight ''experience''
     + calculate_education_match cv req * weight ''education''"
  unfolding calculate_matching_scores_def by (simp_all add: Let_def split: prod.splits)

section \<open>Properties of the ranking\<close>

lemma fold_collect:
  "fold (\<lambda>x acc. case f x of None \<Rightarrow> acc | Some r \<Rightarrow> acc @ [r]) xs acc
     = acc @ List.map_filter f xs"
  by (induction xs arbitrary: acc) (auto simp: List.map_filter_simps split: option.splits)

lemma match_all_map_filter:
  "match_all rt p req jd incl cvs = List.map_filter (match_one rt p req jd incl) cvs"
  unfolding match_all_def using fold_collect [of "match_one rt p req jd incl" cvs "[]"] by simp

lemma length_map_filter_le: "length (List.map_filter f xs) \<le> length xs"
  by (induction xs) (auto simp: List.map_filter_simps split: option.splits)

lemma candidate_results_length:
  "length (candidate_results rt p jd cvs incl) \<le> length cvs"
  unfolding candidate_results_def match_all_map_filter by (rule length_map_filter_le)

lemma find_matches_eq:
  "find_matches rt p jd cvs k incl = slice_to (ranked_results rt p jd cvs incl) k"
proof (cases "cvs = []")
  case True
  then show ?thesis
    by (simp add: find_matches_def ranked_results_def candidate_results_def match_all_def
        sort_reverse_def slice_to_def)
next
  case False
  then show ?thesis
    by (simp add: find_matches_def ranked_results_def candidate_results_def Let_def)
qed

lemma sort_reverse_mset: "mset (sort_reverse f xs) = mset xs"
  unfolding sort_reverse_def by simp

lemma sort_reverse_length: "length (sort_reverse f xs) = length xs"
  unfolding sort_reverse_def by simp

lemma sort_reverse_descending: "sorted_wrt (\<lambda>a b. f a \<ge> f b) (sort_reverse f xs)"
proof -
  have "sorted (map f (sort_key f (rev xs)))" by (rule sorted_sort_key)
  then have "sorted_wrt (\<lambda>x y. f x \<le> f y) (sort_key f (rev xs))" by (simp add: sorted_map)
  then show ?thesis unfolding sort_reverse_def by (simp add: sorted_wrt_rev)
qed

lemma sort_reverse_stable:
  "filter (\<lambda>x. f x = k) (sort_reverse f xs) = filter (\<lambda>x. f x = k) xs"
proof -
  have "filter (\<lambda>x. f x = k) (sort_reverse f xs)
          = rev (filter (\<lambda>x. f x = k) (sort_key f (rev xs)))"
    unfolding sort_reverse_def by (simp add: rev_filter)
  also have "\<dots> = rev (filter (\<lambda>x. f x = k) (rev xs))" by (simp only: sort_key_stable)
  also have "\<dots> = filter (\<lambda>x. f x = k) xs" by (simp add: rev_filter)
  finally show ?thesis .
qed

lemma insort_key_map_same:
  assumes "\<And>x. f (g x) = f x"
  shows "insort_key f (g x) (map g ys) = map g (insort_key f x ys)"
  using assms by (induction ys) simp_all

lemma sort_key_map_same:
  assumes "\<And>x. f (g x) = f x"
  shows "sort_key f (map g xs) = map g (sort_key f xs)"
  by (induction xs) (simp_all add: insort_key_map_same [of f g, OF assms])

lemma sort_reverse_map_same:
  assumes "\<And>x. f (g x) = f x"
  shows "sort_reverse f (map g xs) = map g (sort_reverse f xs)"
proof -
  have "sort_key f (rev (map g xs)) = map g (sort_key f (rev xs))"
    unfolding rev_map by (rule sort_key_map_same [of f g, OF assms])
  then show ?thesis
    unfolding sort_reverse_def by (simp add: rev_map)
qed

lemma slice_to_map: "slice_to (map g xs) k = map g (slice_to xs k)"
  unfolding slice_to_def by (simp add: take_map)

lemma map_filter_map_option:
  "List.map_filter (\<lambda>x. map_option g (f x)) xs = map g (List.map_filter f xs)"
  by (induction xs) (auto simp: List.map_filter_simps split: option.splits)

lemma match_one_without_explanation:
  "match_one rt p req jd False d
     = map_option (\<lambda>r. r\<lparr>explanation := []\<rparr>) (match_one rt p req jd True d)"
  unfolding match_one_def by (simp add: Let_def split: option.splits)

lemma candidate_results_without_explanation:
  "candidate_results rt p jd cvs False
     = map (\<lambda>r. r\<lparr>explanation := []\<rparr>) (candidate_results rt p jd cvs True)"
proof -
  let ?req = "extract_job_requirements rt jd"
  have "match_one rt p ?req jd False
          = (\<lambda>d. map_option (\<lambda>r. r\<lparr>explanation := []\<rparr>) (match_one rt p ?req jd True d))"
    by (rule ext) (rule match_one_without_explanation)
  then show ?thesis
    unfolding candidate_results_def match_all_map_filter
    by (simp only: map_filter_map_option)
qed

section \<open>Properties of the relevance check\<close>

lemma contains_sublist: "contains s sub = sublist sub s"
  by (induction s) (simp_all add: sublist_Cons_right)

lemma split_from_tokens:
  "w \<in> set (split_from cur s) \<Longrightarrow> sublist w (cur @ s)"
proof (induction s arbitrary: cur)
  case Nil
  then show ?case by (auto split: if_splits)
next
  case (Cons c cs)
  show ?case
  proof (cases "is_space c")
    case False
    with Cons.prems have "w \<in> set (split_from (cur @ [c]) cs)" by simp
    then have "sublist w ((cur @ [c]) @ cs)" by (rule Cons.IH)
    then show ?thesis by simp
  next
    case True
    with Cons.prems consider (here) "w = cur" | (later) "w \<in> set (split_from [] cs)"
      by (auto split: if_splits)
    then show ?thesis
    proof cases
      case here
      then show ?thesis by (simp add: sublist_append_rightI)
    next
      case later
      then have "sublist w ([] @ cs)" by (rule Cons.IH)
      then have "sublist w cs" by simp
      then have "sublist w (c # cs)" by (simp add: sublist_Cons_right)
      moreover have "sublist (c # cs) (cur @ c # cs)" by (rule sublist_append_leftI)
      ultimately show ?thesis by (rule sublist_order.order.trans)
    qed
  qed
qed

lemma split_tokens_contained: "w \<in> set (split s) \<Longrightarrow> contains s w"
  unfolding split_def contains_sublist using split_from_tokens [of w "[]" s] by simp

lemma shares_token_has_keyword: "shares_token jd entry \<Longrightarrow> has_keyword jd entry"
  unfolding shares_token_def has_keyword_def list_ex_iff
  by (blast intro: split_tokens_contained)

lemma fold_count_pos:
  "(0 < fold (\<lambda>x n. if P x then n + 1 else n) xs (n0::nat)) = (0 < n0 \<or> list_ex P xs)"
  by (induction xs arbitrary: n0) auto

lemma relevance_score_pos:
  "(relevance_score (lower jd) entry > 0) = has_keyword jd entry"
  unfolding relevance_score_def has_keyword_def entry_text_def Let_def
  by (simp add: fold_count_pos)

lemma find_relevant_experience_eq:
  "find_relevant_experience jd exps
     = map (\<lambda>entry. job_title entry @ '' at '' @ company entry) (filter (has_keyword jd) exps)"
proof -
  have "find_relevant_experience jd exps
          = fold (\<lambda>entry relevant. if has_keyword jd entry
                    then relevant @ [job_title entry @ '' at '' @ company entry]
                    else relevant) exps []"
    unfolding find_relevant_experience_def Let_def relevance_score_pos ..
  also have "\<dots> = [] @ map (\<lambda>entry. job_title entry @ '' at '' @ company entry)
                        (filter (has_keyword jd) exps)"
    by (rule fold_append_if)
  finally show ?thesis by simp
qed

lemma relevant_experience_snd:
  "snd (calculate_experience_match rt cv req jd) = find_relevant_experience jd (experience cv)"
  unfolding calculate_experience_match_def by (simp add: Let_def)

section \<open>Properties of the skill detection\<close>

lemma fold_categories:
  "fold (\<lambda>(category, skills) required. fold g skills required) cats required
     = fold g (concat (map snd cats)) required"
  by (induction cats arbitrary: required) (auto split: prod.splits)

lemma fold_set_add:
  "distinct xs \<Longrightarrow> set xs \<inter> set acc = {} \<Longrightarrow>
   fold (\<lambda>x acc. if P x then set_add x acc else acc) xs acc = acc @ filter P xs"
proof (induction xs arbitrary: acc)
  case Nil
  then show ?case by simp
next
  case (Cons x xs)
  show ?case
  proof (cases "P x")
    case True
    have "x \<notin> set acc" using Cons.prems(2) by auto
    then have a: "set_add x acc = acc @ [x]" by (simp add: set_add_def)
    have "set xs \<inter> set (acc @ [x]) = {}" using Cons.prems by auto
    moreover have "distinct xs" using Cons.prems(1) by simp
    ultimately have "fold (\<lambda>x acc. if P x then set_add x acc else acc) xs (acc @ [x])
                       = (acc @ [x]) @ filter P xs"
      by (rule Cons.IH [rotated])
    with True a show ?thesis by simp
  next
    case False
    have "set xs \<inter> set acc = {}" using Cons.prems(2) by auto
    moreover have "distinct xs" using Cons.prems(1) by simp
    ultimately have "fold (\<lambda>x acc. if P x then set_add x acc else acc) xs acc = acc @ filter P xs"
      by (rule Cons.IH [rotated])
    with False show ?thesis by simp
  qed
qed

lemma vocabulary_distinct: "distinct vocabulary"
  by code_simp

lemma detect_skills_filter: "detect_skills s = filter (contains s) vocabulary"
proof -
  have "detect_skills s
          = fold (\<lambda>skill required. if contains s skill then set_add skill required else required)
              vocabulary []"
    unfolding detect_skills_def vocabulary_def by (rule fold_categories)
  also have "\<dots> = [] @ filter (contains s) vocabulary"
    by (rule fold_set_add) (simp_all add: vocabulary_distinct)
  finally show ?thesis by simp
qed

lemma required_skills_extract:
  "required_skills (extract_job_requirements rt jd)
     = set_order rt (filter (contains (lower jd)) vocabulary)"
  unfolding extract_job_requirements_def by (simp add: Let_def detect_skills_filter)



text \<open>The extractor returns a list of required skills without repetitions, whatever
  the order in which the set is listed.\<close>

lemma required_skills_distinct:
  assumes "\<And>xs. distinct xs \<Longrightarrow> distinct (set_order rt xs)"
  shows "distinct (required_skills (extract_job_requirements rt jd))"
  unfolding required_skills_extract
  by (rule assms) (simp add: vocabulary_distinct)

section \<open>Properties of the experience detection\<close>

lemma re_search_occurrences:
  "re_search p s = (case occurrences p s of [] \<Rightarrow> None | g # _ \<Rightarrow> Some g)"
  by (induction s) (simp_all split: list.splits)

lemma re_search_first_occurrence:
  "(case re_search p s of None \<Rightarrow> [] | Some g \<Rightarrow> [g]) = first_occurrence p s"
  unfolding first_occurrence_def re_search_occurrences by (simp split: list.splits)

lemma fold_max_matches:
  "fold (\<lambda>p years. case f p of None \<Rightarrow> years | Some g \<Rightarrow> max years (v g)) ps (y::int)
     = fold max (concat (map (\<lambda>p. map v (case f p of None \<Rightarrow> [] | Some g \<Rightarrow> [g])) ps)) y"
  by (induction ps arbitrary: y) (simp_all add: max.commute split: option.splits)

lemma detect_years_first:
  "detect_years s = max_over_matches first_occurrence s"
  unfolding detect_years_def max_over_matches_def fold_max_matches
  by (simp only: re_search_first_occurrence)

lemma fold_max_Max: "fold max xs (y::int) = Max (insert y (set xs))"
  using Max.set_eq_fold [of y xs] by simp

lemma fold_max_mono:
  assumes "set xs \<subseteq> set ys"
  shows "fold max xs (y::int) \<le> fold max ys y"
  unfolding fold_max_Max using assms by (intro Max_mono) auto

lemma max_over_first_le: "max_over_matches first_occurrence s \<le> max_over_matches occurrences s"
  unfolding max_over_matches_def first_occurrence_def
  by (rule fold_max_mono) (auto dest: in_set_takeD)

lemma required_years_nonneg:
  "0 \<le> required_experience_years (extract_job_requirements rt jd)"
proof -
  have "required_experience_years (extract_job_requirements rt jd) = detect_years (lower jd)"
    unfolding extract_job_requirements_def by (simp add: Let_def)
  also have "\<dots> = max_over_matches first_occurrence (lower jd)"
    by (rule detect_years_first)
  finally show ?thesis
    unfolding max_over_matches_def fold_max_Max by simp
qed

section \<open>The claims\<close>

subsection \<open>Overall score\<close>

text \<open>
  Claim C1. For every candidate the overall score is
  \<open>skillScore * 0.5 + experienceScore * 0.3 + educationScore * 0.2\<close>; in particular the
  dimension scores 0.8, 0.6 and 1.0 give the overall score 0.78.
\<close>

theorem overall_score_weighted_sum:
  "overall (calculate_matching_scores rt cv req jd) =
     skills_score (calculate_matching_scores rt cv req jd) * 0.5
     + experience_score (calculate_matching_scores rt cv req jd) * 0.3
     + education_score (calculate_matching_scores rt cv req jd) * 0.2
   \<and> (skills_score (calculate_matching_scores rt cv req jd) = 0.8
        \<and> experience_score (calculate_matching_scores rt cv req jd) = 0.6
        \<and> education_score (calculate_matching_scores rt cv req jd) = 1.0
      \<longrightarrow> overall (calculate_matching_scores rt cv req jd) = 0.78)"
  by (simp add: scores_fields weight_values)

theorem overall_score_weighted_sum_witness:
  "skills_score (calculate_matching_scores example_runtime cv_ann req_five_skills []) = 0.8
   \<and> experience_score (calculate_matching_scores example_runtime cv_ann req_five_skills []) = 0.6
   \<and> education_score (calculate_matching_scores example_runtime cv_ann req_five_skills []) = 1.0
   \<and> overall (calculate_matching_scores example_runtime cv_ann req_five_skills []) = 0.78"
proof -
  have s: "skills_score (calculate_matching_scores example_runtime cv_ann req_five_skills []) = 0.8"
    by code_simp
  have e: "experience_score (calculate_matching_scores example_runtime cv_ann req_five_skills []) = 0.6"
    by code_simp
  have d: "education_score (calculate_matching_scores example_runtime cv_ann req_five_skills []) = 1.0"
    by code_simp
  from overall_score_weighted_sum [of example_runtime cv_ann req_five_skills "[]"] s e d
  show ?thesis by blast
qed

subsection \<open>Experience score without a stated requirement\<close>

text \<open>
  Claim C4 says that with \<open>requiredExperienceYears = 0\<close> the experience score is 0.7 if the
  candidate has any experience and 0.3 otherwise, and nothing else. The senior-role
  adjustment is applied in that case too: for a senior role and a candidate without
  experience the score is 0.21. And the test is on the total of the computed years, not
  on the entries: a candidate whose only entry starts and ends in the same year has an
  experience entry and scores 0.3.
\<close>

theorem experience_score_unspecified_counterexample:
  "required_experience_years req_senior_open = 0
   \<and> fst (calculate_experience_match example_runtime cv_bob req_senior_open ''senior'') = 0.21
   \<and> fst (calculate_experience_match example_runtime cv_bob req_senior_open ''senior'') \<noteq> 0.7
   \<and> fst (calculate_experience_match example_runtime cv_bob req_senior_open ''senior'') \<noteq> 0.3
   \<and> required_experience_years req_open = 0
   \<and> experience cv_eve \<noteq> []
   \<and> fst (calculate_experience_match example_runtime cv_eve req_open []) = 0.3"
proof -
  have v: "fst (calculate_experience_match example_runtime cv_bob req_senior_open ''senior'') = 0.21"
    by code_simp
  have r: "required_experience_years req_senior_open = 0"
    by (simp add: req_senior_open_def)
  have w: "fst (calculate_experience_match example_runtime cv_eve req_open []) = 0.3"
    by code_simp
  have r': "required_experience_years req_open = 0"
    by (simp add: req_open_def)
  have e: "experience cv_eve \<noteq> []"
    by (simp add: cv_eve_def make_cv_def)
  show ?thesis unfolding v w using r r' e by simp
qed

text \<open>
  Claim C4, amended. With \<open>requiredExperienceYears = 0\<close> the experience score before the
  senior-role adjustment is 0.7 when the candidate's total experience years are positive
  and 0.3 otherwise. That is the score, unless the role is senior and the candidate has
  fewer than 3 years in total: then the score is that value multiplied by 0.7.
\<close>

theorem experience_score_unspecified:
  assumes "required_experience_years req = 0"
  shows "(\<not> (is_senior_role req \<and> get_total_experience_years rt cv < 3) \<longrightarrow>
            fst (calculate_experience_match rt cv req jd)
              = (if get_total_experience_years rt cv > 0 then 0.7 else 0.3))
         \<and> (is_senior_role req \<and> get_total_experience_years rt cv < 3 \<longrightarrow>
            fst (calculate_experience_match rt cv req jd)
              = (if get_total_experience_years rt cv > 0 then 0.7 else 0.3) * 0.7)"
  using assms by (simp add: experience_score_eq Let_def)

theorem experience_score_unspecified_witness:
  "required_experience_years req_open = 0
   \<and> \<not> (is_senior_role req_open \<and> get_total_experience_years example_runtime cv_ann < 3)
   \<and> fst (calculate_experience_match example_runtime cv_ann req_open []) = 0.7
   \<and> required_experience_years req_senior_open = 0
   \<and> (is_senior_role req_senior_open \<and> get_total_experience_years example_runtime cv_bob < 3)
   \<and> fst (calculate_experience_match example_runtime cv_bob req_senior_open []) = 0.3 * 0.7
   \<and> (is_senior_role req_senior_open \<and> get_total_experience_years example_runtime cv_joe < 3)
   \<and> fst (calculate_experience_match example_runtime cv_joe req_senior_open []) = 0.7 * 0.7"
proof -
  have r: "required_experience_years req_open = 0" "\<not> is_senior_role req_open"
    by (simp_all add: req_open_def)
  have r': "required_experience_years req_senior_open = 0" "is_senior_role req_senior_open"
    by (simp_all add: req_senior_open_def)
  have y: "get_total_experience_years example_runtime cv_ann = 3" by code_simp
  have y': "get_total_experience_years example_runtime cv_bob = 0" by code_simp
  have y'': "get_total_experience_years example_runtime cv_joe = 2" by code_simp
  from experience_score_unspecified [OF r(1), of example_runtime cv_ann "[]"]
       experience_score_unspecified [OF r'(1), of example_runtime cv_bob "[]"]
       experience_score_unspecified [OF r'(1), of example_runtime cv_joe "[]"] r r' y y' y''
  show ?thesis by simp
qed

subsection \<open>Score ranges\<close>

text \<open>
  Claim C8. For every candidate and every requirement set (with a required number of years
  that is not negative), the skill score, the experience score after the senior-role
  adjustment, the education score and the overall score lie between 0 and 1.
\<close>

theorem scores_in_unit_interval:
  assumes "0 \<le> required_experience_years req"
  shows "0 \<le> fst (calculate_skill_match rt cv req) \<and> fst (calculate_skill_match rt cv req) \<le> 1
       \<and> 0 \<le> fst (calculate_experience_match rt cv req jd)
       \<and> fst (calculate_experience_match rt cv req jd) \<le> 1
       \<and> 0 \<le> calculate_education_match cv req \<and> calculate_education_match cv req \<le> 1
       \<and> 0 \<le> overall (calculate_matching_scores rt cv req jd)
       \<and> overall (calculate_matching_scores rt cv req jd) \<le> 1"
proof -
  define a where "a = fst (calculate_skill_match rt cv req)"
  define b where "b = fst (calculate_experience_match rt cv req jd)"
  define c where "c = calculate_education_match cv req"
  have a: "0 \<le> a \<and> a \<le> 1" unfolding a_def by (rule skill_score_bounds)
  have b: "0 \<le> b \<and> b \<le> 1" unfolding b_def by (rule experience_score_bounds [OF assms])
  have c: "0 \<le> c \<and> c \<le> 1" unfolding c_def by (rule education_score_bounds)
  have o: "overall (calculate_matching_scores rt cv req jd) = a * 0.5 + b * 0.3 + c * 0.2"
    unfolding a_def b_def c_def by (simp add: scores_fields weight_values)
  have "0 \<le> a * 0.5 + b * 0.3 + c * 0.2 \<and> a * 0.5 + b * 0.3 + c * 0.2 \<le> 1"
    using a b c by simp
  with a b c o show ?thesis unfolding a_def b_def c_def by simp
qed

theorem scores_in_unit_interval_witness:
  "0 \<le> required_experience_years req_five_skills
   \<and> fst (calculate_skill_match example_runtime cv_ann req_five_skills) = 0.8
   \<and> 0 \<le> overall (calculate_matching_scores example_runtime cv_ann req_five_skills [])
   \<and> overall (calculate_matching_scores example_runtime cv_ann req_five_skills []) \<le> 1"
proof -
  have h: "0 \<le> required_experience_years req_five_skills"
    by (simp add: req_five_skills_def)
  have s: "fst (calculate_skill_match example_runtime cv_ann req_five_skills) = 0.8"
    by code_simp
  from scores_in_unit_interval [OF h, of example_runtime cv_ann "[]"] h s
  show ?thesis by simp
qed

subsection \<open>Matched skills\<close>

lemma matched_distinct:
  assumes "distinct (required_skills req)"
  shows "distinct (snd (calculate_skill_match rt cv req))"
proof -
  let ?req = "required_skills req"
  let ?cand = "map (\<lambda>skill. lower (skill_name skill)) (skills cv)"
  let ?d = "direct_matches ?req ?cand"
  have d: "distinct ?d" unfolding direct_matches_filter using assms by simp
  obtain sem where "fold (semantic_step rt ?cand) ?req ?d = ?d @ sem"
    "distinct ?d \<longrightarrow> distinct (?d @ sem)"
    using semantic_fold_extends [of rt ?cand ?req ?d] by blast
  with d have "distinct (fold (semantic_step rt ?cand) ?req ?d)" by simp
  with d show ?thesis
    unfolding calculate_skill_match_def by (simp add: Let_def)
qed

text \<open>
  Claim C10. When the required skills are a non-empty set (a list without repetitions), the
  matched skills have no repetitions either and are at most as many as the required
  skills, so the ratio of the two lengths is at most 1.
\<close>

theorem matched_skills_distinct_bounded:
  assumes "distinct (required_skills req)" and "required_skills req \<noteq> []"
  shows "distinct (snd (calculate_skill_match rt cv req))
       \<and> length (snd (calculate_skill_match rt cv req)) \<le> length (required_skills req)
       \<and> real (length (snd (calculate_skill_match rt cv req)))
           / real (length (required_skills req)) \<le> 1"
proof -
  have l: "length (snd (calculate_skill_match rt cv req)) \<le> length (required_skills req)"
    by (rule matched_length_le)
  have p: "0 < real (length (required_skills req))" using assms(2) by simp
  have "real (length (snd (calculate_skill_match rt cv req)))
           / real (length (required_skills req)) \<le> 1"
    using l p by simp
  with l matched_distinct [OF assms(1)] show ?thesis by simp
qed

theorem matched_skills_distinct_bounded_witness:
  "distinct (required_skills req_five_skills) \<and> required_skills req_five_skills \<noteq> []
   \<and> snd (calculate_skill_match example_runtime cv_ann req_five_skills)
        = [''python'', ''java'', ''react'', ''flask'']
   \<and> distinct (snd (calculate_skill_match example_runtime cv_ann req_five_skills))
   \<and> length (snd (calculate_skill_match example_runtime cv_ann req_five_skills))
        \<le> length (required_skills req_five_skills)"
proof -
  have h1: "distinct (required_skills req_five_skills)" by (simp add: req_five_skills_def)
  have h2: "required_skills req_five_skills \<noteq> []" by (simp add: req_five_skills_def)
  have v: "snd (calculate_skill_match example_runtime cv_ann req_five_skills)
        = [''python'', ''java'', ''react'', ''flask'']" by code_simp
  from matched_skills_distinct_bounded [OF h1 h2, of example_runtime cv_ann] h1 h2 v
  show ?thesis by simp
qed

subsection \<open>Explanations and scores\<close>

text \<open>
  Claim C9. Running \<open>find_matches\<close> with and without explanations gives the same
  candidates in the same order with the same scores and evidence: the results differ in
  the explanation string only, which is empty when explanations are switched off.
\<close>

theorem explanations_do_not_affect_ranking:
  "find_matches rt parse_cv jd cvs top_k False
     = map (\<lambda>r. r\<lparr>explanation := []\<rparr>) (find_matches rt parse_cv jd cvs top_k True)"
proof -
  have "ranked_results rt parse_cv jd cvs False
          = map (\<lambda>r. r\<lparr>explanation := []\<rparr>) (ranked_results rt parse_cv jd cvs True)"
    unfolding ranked_results_def candidate_results_without_explanation
    by (rule sort_reverse_map_same) simp
  then show ?thesis
    unfolding find_matches_eq by (simp only: slice_to_map)
qed

subsection \<open>Ranking and truncation\<close>

text \<open>
  Claim C2. For a \<open>topK\<close> that is not negative, \<open>find_matches\<close> returns the first \<open>topK\<close>
  entries of the ranked list. The ranked list is a rearrangement of the per-candidate
  results, descending by overall score, in which the results of any one overall score
  keep their input order (the sort is stable). When there are no more candidates than
  \<open>topK\<close>, all results are returned.
\<close>

theorem find_matches_ranking:
  assumes "0 \<le> top_k"
  shows "find_matches rt parse_cv jd cvs top_k incl
           = take (nat top_k) (ranked_results rt parse_cv jd cvs incl)
       \<and> mset (ranked_results rt parse_cv jd cvs incl)
           = mset (candidate_results rt parse_cv jd cvs incl)
       \<and> sorted_wrt (\<lambda>a b. overall_score a \<ge> overall_score b)
           (ranked_results rt parse_cv jd cvs incl)
       \<and> (\<forall>s. filter (\<lambda>r. overall_score r = s) (ranked_results rt parse_cv jd cvs incl)
              = filter (\<lambda>r. overall_score r = s) (candidate_results rt parse_cv jd cvs incl))
       \<and> (int (length cvs) \<le> top_k \<longrightarrow>
            find_matches rt parse_cv jd cvs top_k incl = ranked_results rt parse_cv jd cvs incl)"
proof -
  let ?ranked = "ranked_results rt parse_cv jd cvs incl"
  let ?cands = "candidate_results rt parse_cv jd cvs incl"
  have t: "find_matches rt parse_cv jd cvs top_k incl = take (nat top_k) ?ranked"
    unfolding find_matches_eq slice_to_def using assms by simp
  have m: "mset ?ranked = mset ?cands"
    unfolding ranked_results_def by (rule sort_reverse_mset)
  have d: "sorted_wrt (\<lambda>a b. overall_score a \<ge> overall_score b) ?ranked"
    unfolding ranked_results_def by (rule sort_reverse_descending)
  have s: "\<forall>s. filter (\<lambda>r. overall_score r = s) ?ranked = filter (\<lambda>r. overall_score r = s) ?cands"
    unfolding ranked_results_def by (simp only: sort_reverse_stable) simp
  have "length ?ranked \<le> length cvs"
    unfolding ranked_results_def sort_reverse_length by (rule candidate_results_length)
  then have a: "int (length cvs) \<le> top_k \<longrightarrow>
            find_matches rt parse_cv jd cvs top_k incl = ?ranked"
    unfolding t by simp
  from t m d s a show ?thesis by blast
qed

theorem find_matches_ranking_witness:
  "(0::int) \<le> 2 \<and> int (length [cv_bob, cv_ann, cv_cat]) \<le> 3
   \<and> map cv_filename (find_matches example_runtime Some [] [cv_bob, cv_ann, cv_cat] 2 False)
       = [''ann.pdf'', ''bob.pdf'']
   \<and> map cv_filename (find_matches example_runtime Some [] [cv_bob, cv_ann, cv_cat] 3 False)
       = [''ann.pdf'', ''bob.pdf'', ''cat.pdf'']"
proof -
  have r: "map cv_filename (ranked_results example_runtime Some [] [cv_bob, cv_ann, cv_cat] False)
             = [''ann.pdf'', ''bob.pdf'', ''cat.pdf'']"
    by code_simp
  have h2: "(0::int) \<le> 2" and h3: "(0::int) \<le> 3" by simp_all
  have l: "int (length [cv_bob, cv_ann, cv_cat]) \<le> 3" by simp
  have "find_matches example_runtime Some [] [cv_bob, cv_ann, cv_cat] 2 False
          = take 2 (ranked_results example_runtime Some [] [cv_bob, cv_ann, cv_cat] False)"
    using find_matches_ranking [OF h2, of example_runtime Some "[]" "[cv_bob, cv_ann, cv_cat]" False]
    by simp
  then have "map cv_filename
               (find_matches example_runtime Some [] [cv_bob, cv_ann, cv_cat] 2 False)
             = take 2 (map cv_filename
                 (ranked_results example_runtime Some [] [cv_bob, cv_ann, cv_cat] False))"
    by (simp only: take_map)
  then have f2: "map cv_filename
                   (find_matches example_runtime Some [] [cv_bob, cv_ann, cv_cat] 2 False)
                 = [''ann.pdf'', ''bob.pdf'']"
    unfolding r by simp
  have "find_matches example_runtime Some [] [cv_bob, cv_ann, cv_cat] 3 False
          = ranked_results example_runtime Some [] [cv_bob, cv_ann, cv_cat] False"
    using find_matches_ranking [OF h3, of example_runtime Some "[]" "[cv_bob, cv_ann, cv_cat]" False] l
    by blast
  then have f3: "map cv_filename
                   (find_matches example_runtime Some [] [cv_bob, cv_ann, cv_cat] 3 False)
                 = [''ann.pdf'', ''bob.pdf'', ''cat.pdf'']"
    using r by simp
  from f2 f3 show ?thesis by simp
qed

subsection \<open>Input errors\<close>

text \<open>
  Claim C7 says that every \<open>topK < 1\<close> yields an empty result. With \<open>topK = -1\<close> and three
  candidates the slice \<open>match_results[:top_k]\<close> keeps the first two ranked results.
\<close>

theorem find_matches_input_errors_counterexample:
  "(-1::int) < 1
   \<and> map cv_filename (find_matches example_runtime Some [] [cv_bob, cv_ann, cv_cat] (-1) False)
       = [''ann.pdf'', ''bob.pdf'']
   \<and> find_matches example_runtime Some [] [cv_bob, cv_ann, cv_cat] (-1) False \<noteq> []"
proof -
  have v: "map cv_filename
             (find_matches example_runtime Some [] [cv_bob, cv_ann, cv_cat] (-1) False)
           = [''ann.pdf'', ''bob.pdf'']"
    by code_simp
  then have "find_matches example_runtime Some [] [cv_bob, cv_ann, cv_cat] (-1) False \<noteq> []"
    by auto
  with v show ?thesis by simp
qed

text \<open>
  Claim C7, amended. \<open>find_matches\<close> returns a list for every input: the empty list for
  an empty candidate set and for \<open>topK = 0\<close>, and for a negative \<open>topK\<close> the ranked results
  without their last \<open>|topK|\<close> entries.
\<close>

theorem find_matches_input_errors:
  "(cvs = [] \<longrightarrow> find_matches rt parse_cv jd cvs top_k incl = [])
   \<and> (top_k = 0 \<longrightarrow> find_matches rt parse_cv jd cvs top_k incl = [])
   \<and> (top_k < 0 \<longrightarrow> find_matches rt parse_cv jd cvs top_k incl
          = take (length (ranked_results rt parse_cv jd cvs incl) - nat (- top_k))
              (ranked_results rt parse_cv jd cvs incl))"
proof -
  have e: "cvs = [] \<longrightarrow> find_matches rt parse_cv jd cvs top_k incl = []"
    by (simp add: find_matches_def)
  have z: "top_k = 0 \<longrightarrow> find_matches rt parse_cv jd cvs top_k incl = []"
    by (simp add: find_matches_eq slice_to_def)
  have "top_k < 0 \<Longrightarrow> nat (int (length (ranked_results rt parse_cv jd cvs incl)) + top_k)
          = length (ranked_results rt parse_cv jd cvs incl) - nat (- top_k)"
    by linarith
  then have n: "top_k < 0 \<longrightarrow> find_matches rt parse_cv jd cvs top_k incl
          = take (length (ranked_results rt parse_cv jd cvs incl) - nat (- top_k))
              (ranked_results rt parse_cv jd cvs incl)"
    by (simp add: find_matches_eq slice_to_def)
  from e z n show ?thesis by blast
qed

theorem find_matches_input_errors_witness:
  "find_matches example_runtime Some [] ([] :: CVData list) 5 False = []
   \<and> find_matches example_runtime Some [] [cv_bob, cv_ann, cv_cat] 0 False = []
   \<and> (-1::int) < 0
   \<and> map cv_filename (find_matches example_runtime Some [] [cv_bob, cv_ann, cv_cat] (-1) False)
       = [''ann.pdf'', ''bob.pdf'']"
proof -
  have r: "map cv_filename (ranked_results example_runtime Some [] [cv_bob, cv_ann, cv_cat] False)
             = [''ann.pdf'', ''bob.pdf'', ''cat.pdf'']"
    by code_simp
  then have l: "length (ranked_results example_runtime Some [] [cv_bob, cv_ann, cv_cat] False) = 3"
    by (metis length_map length_Cons list.size(3) numeral_3_eq_3)
  have a: "find_matches example_runtime Some [] ([] :: CVData list) 5 False = []"
    using find_matches_input_errors [of "[] :: CVData list" example_runtime Some "[]" 5 False]
    by simp
  have b: "find_matches example_runtime Some [] [cv_bob, cv_ann, cv_cat] 0 False = []"
    using find_matches_input_errors [of "[cv_bob, cv_ann, cv_cat]" example_runtime Some "[]" 0 False]
    by simp
  have "find_matches example_runtime Some [] [cv_bob, cv_ann, cv_cat] (-1) False
          = take 2 (ranked_results example_runtime Some [] [cv_bob, cv_ann, cv_cat] False)"
    using find_matches_input_errors [of "[cv_bob, cv_ann, cv_cat]" example_runtime Some "[]" "-1" False] l
    by simp
  then have "map cv_filename
               (find_matches example_runtime Some [] [cv_bob, cv_ann, cv_cat] (-1) False)
             = take 2 (map cv_filename
                 (ranked_results example_runtime Some [] [cv_bob, cv_ann, cv_cat] False))"
    by (simp only: take_map)
  then have c: "map cv_filename
                 (find_matches example_runtime Some [] [cv_bob, cv_ann, cv_cat] (-1) False)
               = [''ann.pdf'', ''bob.pdf'']"
    unfolding r by simp
  from a b c show ?thesis by simp
qed

subsection \<open>Relevant experience\<close>

text \<open>
  Claim C6 says that an entry is listed exactly when its tokens and the tokens of the job
  description share a token longer than 3. The code tests whether a token of the job
  description occurs in the entry's text as a substring: for the job description
  \<open>java\<close> the entry \<open>JavaScript Developer\<close> shares no token and is listed.
\<close>

theorem relevant_experience_tokens_counterexample:
  "\<not> shares_token ''java''
       (make_experience ''JavaScript Developer'' ''Acme'' ''2019'' ''2022'' [])
   \<and> snd (calculate_experience_match example_runtime
            (make_cv ''dev'' []
               [make_experience ''JavaScript Developer'' ''Acme'' ''2019'' ''2022'' []] [])
            req_open ''java'')
       = [''JavaScript Developer at Acme'']"
  by code_simp

text \<open>
  Claim C6, amended. The relevant-experience list holds \<open><title> at <company>\<close>, in the
  candidate's entry order, for exactly the entries in whose lower-cased title and
  description some whitespace token of the lower-cased job description, longer than 3,
  occurs as a substring. Every entry that shares such a token is among them.
\<close>

theorem relevant_experience_keywords:
  "snd (calculate_experience_match rt cv req jd)
     = map (\<lambda>entry. job_title entry @ '' at '' @ company entry)
         (filter (has_keyword jd) (experience cv))
   \<and> (\<forall>entry \<in> set (experience cv). shares_token jd entry \<longrightarrow> has_keyword jd entry)"
  unfolding relevant_experience_snd find_relevant_experience_eq
  by (simp add: shares_token_has_keyword)

theorem relevant_experience_keywords_witness:
  "snd (calculate_experience_match example_runtime cv_dev req_open ''Java developer'')
     = [''JavaScript Developer at Acme'', ''Java Engineer at Initech'']
   \<and> map (shares_token ''Java developer'') (experience cv_dev) = [True, False, True]
   \<and> map (has_keyword ''Java developer'') (experience cv_dev) = [True, False, True]"
proof -
  have f: "map (\<lambda>entry. job_title entry @ '' at '' @ company entry)
             (filter (has_keyword ''Java developer'') (experience cv_dev))
           = [''JavaScript Developer at Acme'', ''Java Engineer at Initech'']"
    by code_simp
  have s: "map (shares_token ''Java developer'') (experience cv_dev) = [True, False, True]"
    by code_simp
  have k: "map (has_keyword ''Java developer'') (experience cv_dev) = [True, False, True]"
    by code_simp
  from relevant_experience_keywords [of example_runtime cv_dev req_open "''Java developer''"] f s k
  show ?thesis by simp
qed

subsection \<open>Order of the matched skills\<close>




subsection \<open>Required years of experience\<close>

text \<open>
  Claim C3 says that the required years are the maximum number over all occurrences of
  the experience patterns. \<open>re.search\<close> finds the first occurrence of each pattern only:
  in a text with the thresholds 3 and 10, in this order, every pattern that matches
  finds 3.
\<close>

theorem required_years_maximum_counterexample:
  "required_experience_years
     (extract_job_requirements example_runtime ''3 years experience and 10 years experience'')
     = 3
   \<and> max_over_matches occurrences (lower ''3 years experience and 10 years experience'') = 10"
proof -
  have c: "required_experience_years
     (extract_job_requirements example_runtime ''3 years experience and 10 years experience'')
     = 3"
    by code_simp
  have s: "max_over_matches occurrences (lower ''3 years experience and 10 years experience'')
             = 10"
    by code_simp
  from c s show ?thesis by simp
qed

text \<open>
  Claim C3, amended. The required years are the maximum, over the three experience
  patterns, of the number in the first (leftmost) occurrence of the pattern in the
  lower-cased job description, and 0 when no pattern occurs. This is at most the maximum
  over all occurrences.
\<close>

theorem required_years_first_matches:
  "required_experience_years (extract_job_requirements rt jd)
     = max_over_matches first_occurrence (lower jd)
   \<and> required_experience_years (extract_job_requirements rt jd)
       \<le> max_over_matches occurrences (lower jd)"
proof -
  have "required_experience_years (extract_job_requirements rt jd) = detect_years (lower jd)"
    unfolding extract_job_requirements_def by (simp add: Let_def)
  then show ?thesis
    using detect_years_first [of "lower jd"] max_over_first_le [of "lower jd"] by simp
qed

theorem required_years_first_matches_witness:
  "required_experience_years
     (extract_job_requirements example_runtime
        ''3 years of relevant experience or 7 years experience'') = 7
   \<and> max_over_matches first_occurrence
        (lower ''3 years of relevant experience or 7 years experience'') = 7"
proof -
  have v: "max_over_matches first_occurrence
             (lower ''3 years of relevant experience or 7 years experience'') = 7"
    by code_simp
  with required_years_first_matches
         [of example_runtime "''3 years of relevant experience or 7 years experience''"]
  show ?thesis by simp
qed

end
